theory Spec2Isabelle
  imports Complex_Main "HOL-Library.Char_ord" "HOL-Library.List_Lexorder" "HOL-Library.Word"
begin

section \<open>Values, exceptions and effects\<close>

text \<open>
  The backend is Python. An exception is a value of type \<open>exn\<close>; a computation that may
  raise returns \<open>exn + 'a\<close> with \<open>Inl\<close> for the raise. \<open>ServiceError\<close> stands for
  whatever an external SDK call raises (transport, authentication, index or model errors),
  \<open>BadRequest\<close> for what Flask's \<open>request.get_json()\<close> raises on a body it cannot parse.
\<close>

datatype exn =
    KeyError string
  | TypeError string
  | AttributeError string
  | ValueError string
  | BadRequest string
  | ServiceError string

text \<open>
  The parsed request body. A JSON number is modelled by its value (Python's \<open>1 == 1.0\<close>);
  NaN and Infinity are not represented. An object is the parsed dict as an association
  list, a key's first binding being its value.
\<close>

datatype json =
    JNull
  | JBool bool
  | JNum rat
  | JStr string
  | JArr "json list"
  | JObj "(string \<times> json) list"

text \<open>Python truthiness, as tested by \<open>if not user_question\<close>.\<close>

fun truthy :: "json \<Rightarrow> bool" where
  "truthy JNull = False"
| "truthy (JBool b) = b"
| "truthy (JNum n) = (n \<noteq> 0)"
| "truthy (JStr s) = (s \<noteq> [])"
| "truthy (JArr xs) = (xs \<noteq> [])"
| "truthy (JObj kvs) = (kvs \<noteq> [])"

text \<open>
  \<open>data.get("prompt")\<close>: only a dict has \<open>get\<close>; a missing key gives Python's \<open>None\<close>,
  which is \<open>JNull\<close> here.
\<close>

definition data_get :: "json \<Rightarrow> string \<Rightarrow> exn + json" where
  "data_get data k =
     (case data of
        JObj kvs \<Rightarrow> Inr (case map_of kvs k of None \<Rightarrow> JNull | Some v \<Rightarrow> v)
      | _ \<Rightarrow> Inl (AttributeError ''get''))"

text \<open>
  The values held by the fields of a search hit: text, numbers (the score), lists (the
  captions) and \<open>None\<close>. Equality of these values is Python's equality.
\<close>

datatype pyval =
    PNone
  | PStr string
  | PNum rat
  | PList "pyval list"

type_synonym hit = "string \<rightharpoonup> pyval"

text \<open>\<open>d.get(k, default)\<close> on a dict.\<close>

definition dict_get :: "hit \<Rightarrow> string \<Rightarrow> pyval \<Rightarrow> pyval" where
  "dict_get d k dflt = (case d k of None \<Rightarrow> dflt | Some v \<Rightarrow> v)"

datatype message =
    SystemMessage string
  | UserMessage json
  | AssistantMessage string

datatype choice = Choice (message_content: "string option")

record completion =
  choices :: "choice list"

record search_results =
  count :: nat
  results :: "hit list"

text \<open>
  What a request does to the outside world, in order: the lines it prints and the calls
  it makes to the three external services. \<open>PrintErr p e\<close> is \<open>print(f"{p}: {e}")\<close>.
\<close>

datatype event =
    Print string
  | PrintErr string exn
  | SearchCall json nat
  | CompleteCall "message list" string nat
  | UploadCall string string string

fun is_call :: "event \<Rightarrow> bool" where
  "is_call (Print _) = False"
| "is_call (PrintErr _ _) = False"
| "is_call (SearchCall _ _) = True"
| "is_call (CompleteCall _ _ _) = True"
| "is_call (UploadCall _ _ _) = True"

fun is_upload :: "event \<Rightarrow> bool" where
  "is_upload (UploadCall _ _ _) = True"
| "is_upload _ = False"

text \<open>
  The process-wide configuration and the external services, fixed at start-up.
  \<^item> \<open>search_service\<close> and \<open>blob_service\<close> are \<open>None\<close> when their configuration is missing;
    otherwise they hold the SDK client: the index query (search text, \<open>top\<close>; it returns
    the hits and the total count) and the container upload (content, blob name, content
    type; it returns the blob's URL).
  \<^item> \<open>complete\<close> is \<open>client.complete(messages, model, max_tokens)\<close>.
  \<^item> \<open>urandom\<close> is \<open>os.urandom\<close>.
  \<^item> \<open>py_str\<close> is \<open>str()\<close> on the values that are neither text nor \<open>None\<close>.
  \<^item> \<open>set_rank\<close> fixes the order in which a Python \<open>set\<close> is iterated: elements come out
    by increasing rank. Python promises no particular order, so every theorem below
    holds for every rank.
\<close>

record env =
  SYSTEM_PROMPT :: string
  search_service :: "(json \<Rightarrow> nat \<Rightarrow> exn + hit list \<times> nat) option"
  complete :: "message list \<Rightarrow> string \<Rightarrow> nat \<Rightarrow> exn + completion"
  blob_service :: "(string \<Rightarrow> string \<Rightarrow> string \<Rightarrow> exn + string) option"
  urandom :: "nat \<Rightarrow> 8 word list"
  py_str :: "pyval \<Rightarrow> string"
  set_rank :: "pyval \<Rightarrow> nat"

section \<open>search\_service.py\<close>

text \<open>
  The dict built for one hit. \<open>result["id"]\<close> and \<open>result["@search.score"]\<close> raise
  \<open>KeyError\<close> when the key is absent; the other fields are read with a default.
\<close>

definition to_document :: "hit \<Rightarrow> exn + hit" where
  "to_document result =
     (case result ''id'' of
        None \<Rightarrow> Inl (KeyError ''id'')
      | Some i \<Rightarrow>
          (case result ''@search.score'' of
             None \<Rightarrow> Inl (KeyError ''@search.score'')
           | Some sc \<Rightarrow>
               Inr [''id'' \<mapsto> i,
                    ''title'' \<mapsto> dict_get result ''title'' (PStr ''Untitled''),
                    ''content'' \<mapsto> dict_get result ''content'' (PStr ''''),
                    ''source'' \<mapsto> dict_get result ''source'' (PStr ''''),
                    ''sourceFile'' \<mapsto> dict_get result ''sourceFile'' (PStr ''''),
                    ''score'' \<mapsto> sc,
                    ''captions'' \<mapsto> dict_get result ''@search.captions'' (PList [])]))"

text \<open>The loop \<open>for result in results: ... search_results.append(document)\<close>.\<close>

fun to_documents :: "hit list \<Rightarrow> exn + hit list" where
  "to_documents [] = Inr []"
| "to_documents (r # rs) =
     (case to_document r of
        Inl e \<Rightarrow> Inl e
      | Inr d \<Rightarrow> (case to_documents rs of Inl e \<Rightarrow> Inl e | Inr ds \<Rightarrow> Inr (d # ds)))"

definition search_documents ::
  "(json \<Rightarrow> nat \<Rightarrow> exn + hit list \<times> nat) \<Rightarrow> json \<Rightarrow> nat \<Rightarrow> (exn + search_results) \<times> event list"
where
  "search_documents search_client query_text top_n =
     (case search_client query_text top_n of
        Inl e \<Rightarrow> (Inl e, [SearchCall query_text top_n, PrintErr ''Error searching documents'' e])
      | Inr (hits, n) \<Rightarrow>
          (case to_documents hits of
             Inl e \<Rightarrow> (Inl e, [SearchCall query_text top_n, PrintErr ''Error searching documents'' e])
           | Inr docs \<Rightarrow> (Inr \<lparr>count = n, results = docs\<rparr>, [SearchCall query_text top_n])))"

section \<open>openai\_service.py\<close>

definition AZURE_OAI_MODEL_NAME :: string where
  "AZURE_OAI_MODEL_NAME = ''o4-mini-custom-gpt''"

definition get_openai_completion ::
  "env \<Rightarrow> message list \<Rightarrow> nat \<Rightarrow> (exn + completion) \<times> event list"
where
  "get_openai_completion E messages max_tokens =
     (case complete E messages AZURE_OAI_MODEL_NAME max_tokens of
        Inl e \<Rightarrow> (Inl e, [CompleteCall messages AZURE_OAI_MODEL_NAME max_tokens,
                          PrintErr ''Error calling Azure OpenAI'' e])
      | Inr response \<Rightarrow> (Inr response, [CompleteCall messages AZURE_OAI_MODEL_NAME max_tokens]))"

section \<open>blob\_storage\_service.py\<close>

text \<open>
  \<open>upload_document\<close> catches whatever the container client raises and returns \<open>None\<close>
  instead of the URL.
\<close>

definition upload_document ::
  "(string \<Rightarrow> string \<Rightarrow> string \<Rightarrow> exn + string) \<Rightarrow> string \<Rightarrow> string \<Rightarrow> string
     \<Rightarrow> string option \<times> event list"
where
  "upload_document container_client document_content blob_name content_type =
     (case container_client document_content blob_name content_type of
        Inl e \<Rightarrow> (None, [UploadCall document_content blob_name content_type,
                         PrintErr ''Error uploading document'' e])
      | Inr url \<Rightarrow> (Some url, [UploadCall document_content blob_name content_type]))"

section \<open>app.py\<close>

text \<open>
  Text is a list of characters, one per character of the Python string (so \<open>take 20\<close> is
  \<open>[:20]\<close>); \<open>.encode("utf-8")\<close> leaves such text as it is.
\<close>

text \<open>
  A value inside an f-string: text as it is, \<open>None\<close> as \<open>"None"\<close>, anything else through
  \<open>str()\<close>.
\<close>

definition fmt :: "env \<Rightarrow> pyval \<Rightarrow> string" where
  "fmt E v = (case v of PStr s \<Rightarrow> s | PNone \<Rightarrow> ''None'' | _ \<Rightarrow> py_str E v)"

definition fmt_opt :: "string option \<Rightarrow> string" where
  "fmt_opt v = (case v of None \<Rightarrow> ''None'' | Some s \<Rightarrow> s)"

text \<open>
  The Python \<open>set\<close> of source files is kept as the list of its elements, without
  duplicates. \<open>add\<close> raises \<open>TypeError\<close> on an unhashable value (a list); iterating the set
  (\<open>list(...)\<close>, \<open>join\<close>) yields the elements by increasing rank.
\<close>

fun hashable :: "pyval \<Rightarrow> bool" where
  "hashable (PList _) = False"
| "hashable _ = True"

definition set_add :: "pyval \<Rightarrow> pyval list \<Rightarrow> pyval list" where
  "set_add x s = (if x \<in> set s then s else s @ [x])"

definition set_iter :: "env \<Rightarrow> pyval list \<Rightarrow> pyval list" where
  "set_iter E s = sort_key (set_rank E) s"

text \<open>
  The loop over \<open>search_results["results"]\<close>. It returns the set of source files as it is
  when the loop ends or raises, and the context block or the exception.
\<close>

fun snippet_loop ::
  "env \<Rightarrow> hit list \<Rightarrow> string \<Rightarrow> pyval list \<Rightarrow> (exn + string) \<times> pyval list"
where
  "snippet_loop E [] search_context source_files = (Inr search_context, source_files)"
| "snippet_loop E (result # rest) search_context source_files =
     (let content_snippet = dict_get result ''content'' (PStr []);
          source_file = dict_get result ''sourceFile'' (PStr ''Unknown Source'');
          search_context' = search_context @ ''\<newline>---\<newline>Source: '' @ fmt E source_file
             @ ''\<newline>Snippet: '' @ fmt E content_snippet @ ''\<newline>---''
      in if hashable source_file
         then snippet_loop E rest search_context' (set_add source_file source_files)
         else (Inl (TypeError ''unhashable type''), source_files))"

text \<open>Step 1 of the handler: context retrieval. It returns the context and the set of source files.\<close>

definition retrieve :: "env \<Rightarrow> json \<Rightarrow> (string \<times> pyval list) \<times> event list" where
  "retrieve E user_question =
     (case search_service E of
        None \<Rightarrow> ((''\<newline>\<newline>Azure AI Search service is not configured.'', []), [])
      | Some search_client \<Rightarrow>
          (case search_documents search_client user_question 3 of
             (Inl e, evs) \<Rightarrow>
               ((''\<newline>\<newline>Error retrieving documents from search index.'', []),
                evs @ [PrintErr ''Error during Azure AI Search query'' e])
           | (Inr sr, evs) \<Rightarrow>
               if results sr \<noteq> []
               then (case snippet_loop E (results sr)
                            ''\<newline>\<newline>Relevant Document Snippets:\<newline>'' [] of
                       (Inl e, source_files) \<Rightarrow>
                         ((''\<newline>\<newline>Error retrieving documents from search index.'', source_files),
                          evs @ [PrintErr ''Error during Azure AI Search query'' e])
                     | (Inr search_context, source_files) \<Rightarrow>
                         ((search_context, source_files), evs))
               else ((''\<newline>\<newline>No relevant documents found in the search index for this query.'',
                      []), evs)))"

text \<open>\<open>bytes.hex()\<close>: two lower-case digits per byte.\<close>

definition hex_digit :: "nat \<Rightarrow> char" where
  "hex_digit n = ''0123456789abcdef'' ! (n mod 16)"

definition hex :: "8 word list \<Rightarrow> string" where
  "hex bs = concat (map (\<lambda>b. [hex_digit (unat b div 16), hex_digit (unat b mod 16)]) bs)"

text \<open>\<open>', '.join(...)\<close>: \<open>TypeError\<close> on an item that is not text.\<close>

fun join :: "string \<Rightarrow> pyval list \<Rightarrow> exn + string" where
  "join sep [] = Inr []"
| "join sep [PStr s] = Inr s"
| "join sep (PStr s # x # xs) =
     (case join sep (x # xs) of Inl e \<Rightarrow> Inl e | Inr t \<Rightarrow> Inr (s @ sep @ t))"
| "join sep (_ # _) = Inl (TypeError ''sequence item: expected str instance'')"

text \<open>
  \<open>user_question[:20].replace(' ', '_')\<close>: only text can be sliced and replaced in; a
  number or a boolean cannot be subscripted, a list has no \<open>replace\<close>, a dict cannot be
  sliced.
\<close>

definition slice_replace :: "json \<Rightarrow> exn + string" where
  "slice_replace user_question =
     (case user_question of
        JStr s \<Rightarrow> Inr (map (\<lambda>c. if c = CHR '' '' then CHR ''_'' else c) (take 20 s))
      | JArr _ \<Rightarrow> Inl (AttributeError ''replace'')
      | _ \<Rightarrow> Inl (TypeError ''not subscriptable''))"

text \<open>
  Step 4 of the handler: the simulated document and its upload. It returns
  \<open>document_url\<close>, which stays \<open>None\<close> when the step raises. The blob name is built
  first, so the content is only built for a question that is text.
\<close>

definition simulate_upload ::
  "env \<Rightarrow> json \<Rightarrow> string option \<Rightarrow> pyval list \<Rightarrow> string option \<times> event list"
where
  "simulate_upload E user_question ai_response_text source_files =
     (case blob_service E of
        None \<Rightarrow> (None, [Print ''Blob service not configured. Skipping document upload.''])
      | Some container_client \<Rightarrow>
          (case slice_replace user_question of
             Inl e \<Rightarrow> (None, [PrintErr ''Error during simulated document upload'' e])
           | Inr fragment \<Rightarrow>
               (let simulated_blob_name =
                      ''generated_docs/response_'' @ fragment @ ''_'' @ hex (urandom E 4) @ ''.docx''
                in case (if source_files \<noteq> [] then join '', '' (set_iter E source_files)
                         else Inr ''N/A'') of
                     Inl e \<Rightarrow> (None, [PrintErr ''Error during simulated document upload'' e])
                   | Inr joined \<Rightarrow>
                       (let simulated_content =
                              ''Question: '' @ (case user_question of JStr s \<Rightarrow> s | _ \<Rightarrow> [])
                              @ ''\<newline>\<newline>Answer: '' @ fmt_opt ai_response_text
                              @ ''\<newline>\<newline>Sources: '' @ joined
                        in case upload_document container_client simulated_content
                                  simulated_blob_name ''text/plain'' of
                             (document_url, evs) \<Rightarrow>
                               (document_url,
                                evs @ [Print (''Simulated document uploaded to: ''
                                               @ fmt_opt document_url)])))))"

text \<open>The response: the HTTP status and the JSON body given to \<open>jsonify\<close>.\<close>

datatype body =
    ErrorBody string
  | ChatBody "string option" "string option" "pyval list"

record response =
  status :: nat
  body :: body

text \<open>
  Reading the fields \<open>ai_response\<close>, \<open>document_url\<close> and \<open>sources\<close> of a body; an
  error body has none of them (a field that is there may still hold \<open>None\<close>, JSON's
  \<open>null\<close>).
\<close>

fun get_ai_response :: "body \<Rightarrow> string option option" where
  "get_ai_response (ChatBody a _ _) = Some a"
| "get_ai_response (ErrorBody _) = None"

fun get_document_url :: "body \<Rightarrow> string option option" where
  "get_document_url (ChatBody _ u _) = Some u"
| "get_document_url (ErrorBody _) = None"

fun get_sources :: "body \<Rightarrow> pyval list" where
  "get_sources (ChatBody _ _ ss) = ss"
| "get_sources (ErrorBody _) = []"

text \<open>
  \<open>chat_handler\<close>. The request is what \<open>request.get_json()\<close> gives: the parsed body, or
  the exception it raises on a body that is not JSON. \<open>chat_try\<close> is the body of the outer
  \<open>try\<close>; \<open>Inl\<close> is an exception reaching the outer \<open>except\<close>.
\<close>

definition chat_try :: "env \<Rightarrow> exn + json \<Rightarrow> (exn + response) \<times> event list" where
  "chat_try E request =
     (case request of
        Inl e \<Rightarrow> (Inl e, [])
      | Inr data \<Rightarrow>
          (case data_get data ''prompt'' of
             Inl e \<Rightarrow> (Inl e, [])
           | Inr user_question \<Rightarrow>
               if \<not> truthy user_question
               then (Inr \<lparr>status = 400, body = ErrorBody ''No prompt provided''\<rparr>, [])
               else
                 (case retrieve E user_question of
                    ((search_context, source_files), evs1) \<Rightarrow>
                      (let messages = [SystemMessage (SYSTEM_PROMPT E @ search_context),
                                       UserMessage user_question]
                       in case get_openai_completion E messages 1500 of
                            (Inl e, evs2) \<Rightarrow>
                              (Inr \<lparr>status = 500,
                                    body = ErrorBody ''Failed to get response from AI model''\<rparr>,
                               evs1 @ evs2 @ [PrintErr ''Error calling Azure OpenAI'' e])
                          | (Inr completion, evs2) \<Rightarrow>
                              (let ai_response_text =
                                     (case choices completion of
                                        [] \<Rightarrow> Some ''Sorry, I could not generate a response.''
                                      | c # _ \<Rightarrow> message_content c)
                               in case simulate_upload E user_question ai_response_text
                                         source_files of
                                    (document_url, evs3) \<Rightarrow>
                                      (Inr \<lparr>status = 200,
                                            body = ChatBody ai_response_text document_url
                                                     (set_iter E source_files)\<rparr>,
                                       evs1 @ evs2 @ evs3))))))"

definition chat_handler :: "env \<Rightarrow> exn + json \<Rightarrow> response \<times> event list" where
  "chat_handler E request =
     (case chat_try E request of
        (Inr r, evs) \<Rightarrow> (r, evs)
      | (Inl e, evs) \<Rightarrow>
          (\<lparr>status = 500, body = ErrorBody ''An internal server error occurred''\<rparr>,
           evs @ [PrintErr ''An unexpected error occurred in /api/chat'' e]))"

section \<open>document\_generator.py\<close>

text \<open>
  The python-docx document, as far as \<open>create_docx_document\<close> touches it: the styles by
  name, the body paragraphs in order, and the first paragraph of the first section's
  footer. The text of a paragraph is a Python string: the list of its code points.
  \<open>str_of\<close> turns a literal of the source into that list.
\<close>

type_synonym unicode = "nat list"

definition str_of :: "string \<Rightarrow> unicode" where
  "str_of s = map of_char s"

datatype alignment = LEFT | CENTER | RIGHT

record style =
  base_style :: "string option"
  font_name :: "string option"
  font_size :: "nat option"
  font_bold :: "bool option"
  font_italic :: "bool option"
  font_color :: "(nat \<times> nat \<times> nat) option"

record docx_paragraph =
  ptext :: unicode
  pstyle :: "string option"
  palignment :: "alignment option"

record document =
  styles :: "string \<rightharpoonup> style"
  paragraphs :: "docx_paragraph list"
  footer :: docx_paragraph

text \<open>
  \<open>Document()\<close>, called with no argument, opens the default template of python-docx: an
  empty body, an empty footer paragraph, and the template's built-in styles. Only the
  names of these styles matter to the function below. The template has \<open>Normal\<close> and
  \<open>Title\<close> (the styles of body text and of \<open>add_heading(text, 0)\<close>) together with the
  numbered headings and the list styles named here; it has no style called \<open>Heading\<close> or
  \<open>Source\<close>. The formatting of the built-in styles is left open.
\<close>

definition default_style_names :: "string list" where
  "default_style_names =
     [''Normal'', ''Title'', ''Subtitle'', ''Heading 1'', ''Heading 2'', ''Heading 3'',
      ''List Bullet'', ''List Number'']"

definition Document :: document where
  "Document =
     \<lparr>styles = (\<lambda>name. if name \<in> set default_style_names
                        then Some \<lparr>base_style = None, font_name = None, font_size = None,
                                   font_bold = None, font_italic = None, font_color = None\<rparr>
                        else None),
      paragraphs = [],
      footer = \<lparr>ptext = [], pstyle = None, palignment = None\<rparr>\<rparr>"

text \<open>
  \<open>styles[name]\<close> raises \<open>KeyError\<close> when the document has no style of that name, and
  \<open>styles.add_style(name, ...)\<close> raises \<open>ValueError\<close> when it already has one. The style
  objects are changed in place: \<open>with_style name f\<close> applies \<open>f\<close> to the style \<open>name\<close>.
\<close>

definition with_style :: "string \<Rightarrow> (style \<Rightarrow> style) \<Rightarrow> document \<Rightarrow> exn + document" where
  "with_style name f doc =
     (case styles doc name of
        None \<Rightarrow> Inl (KeyError name)
      | Some s \<Rightarrow> Inr (doc\<lparr>styles := (styles doc)(name \<mapsto> f s)\<rparr>))"

definition add_style :: "string \<Rightarrow> document \<Rightarrow> exn + document" where
  "add_style name doc =
     (case styles doc name of
        Some _ \<Rightarrow> Inl (ValueError name)
      | None \<Rightarrow>
          Inr (doc\<lparr>styles := (styles doc)(name \<mapsto>
                 \<lparr>base_style = None, font_name = None, font_size = None, font_bold = None,
                  font_italic = None, font_color = None\<rparr>)\<rparr>))"

text \<open>
  \<open>doc.add_paragraph(text, style)\<close> appends a paragraph; a style given by name must
  exist. The alignment of a paragraph is set on the object just added, the last one.
\<close>

definition add_paragraph :: "unicode \<Rightarrow> string option \<Rightarrow> document \<Rightarrow> exn + document" where
  "add_paragraph t st doc =
     (if (case st of None \<Rightarrow> False | Some name \<Rightarrow> styles doc name = None)
      then Inl (KeyError (the st))
      else Inr (doc\<lparr>paragraphs :=
                     paragraphs doc @ [\<lparr>ptext = t, pstyle = st, palignment = None\<rparr>]\<rparr>))"

definition set_alignment :: "alignment \<Rightarrow> document \<Rightarrow> exn + document" where
  "set_alignment a doc =
     (case rev (paragraphs doc) of
        [] \<Rightarrow> Inr doc
      | p # ps \<Rightarrow> Inr (doc\<lparr>paragraphs := rev (p\<lparr>palignment := Some a\<rparr> # ps)\<rparr>))"

definition set_footer :: "(docx_paragraph \<Rightarrow> docx_paragraph) \<Rightarrow> document \<Rightarrow> exn + document" where
  "set_footer f doc = Inr (doc\<lparr>footer := f (footer doc)\<rparr>)"

text \<open>The statements of the function run one after the other; the first to raise ends it.\<close>

fun run :: "(document \<Rightarrow> exn + document) list \<Rightarrow> document \<Rightarrow> exn + document" where
  "run [] doc = Inr doc"
| "run (stmt # stmts) doc = (case stmt doc of Inl e \<Rightarrow> Inl e | Inr doc' \<Rightarrow> run stmts doc')"

text \<open>
  The three characters the source file holds in front of each source name, U+00E2,
  U+20AC and U+00A2: a bullet character, U+2022, decoded with the wrong code page and
  saved again.
\<close>

definition bullet :: unicode where
  "bullet = [0xE2, 0x20AC, 0xA2]"

text \<open>
  \<open>create_docx_document(question, answer, sources=None)\<close>. \<open>now\<close> is
  \<open>datetime.now().strftime('%Y-%m-%d %H:%M:%S')\<close>. The result is the document that
  \<open>doc.save\<close> serialises.
\<close>

definition create_docx_document ::
  "unicode \<Rightarrow> unicode \<Rightarrow> unicode \<Rightarrow> unicode list option \<Rightarrow> exn + document"
where
  "create_docx_document now question answer srcs =
     run
       ([with_style ''Normal'' (\<lambda>s. s\<lparr>font_name := Some ''Calibri''\<rparr>),
         with_style ''Normal'' (\<lambda>s. s\<lparr>font_size := Some 11\<rparr>),
         add_style ''Title'',
         with_style ''Normal'' (\<lambda>s. s),
         with_style ''Title''
           (\<lambda>s. s\<lparr>base_style := Some ''Normal'', font_name := Some ''Calibri'',
                  font_size := Some 16, font_bold := Some True,
                  font_color := Some (0, 0, 139)\<rparr>),
         add_style ''Heading'',
         with_style ''Normal'' (\<lambda>s. s),
         with_style ''Heading''
           (\<lambda>s. s\<lparr>base_style := Some ''Normal'', font_name := Some ''Calibri'',
                  font_size := Some 14, font_bold := Some True\<rparr>),
         add_style ''Source'',
         with_style ''Normal'' (\<lambda>s. s),
         with_style ''Source''
           (\<lambda>s. s\<lparr>base_style := Some ''Normal'', font_name := Some ''Calibri'',
                  font_size := Some 10, font_italic := Some True\<rparr>),
         add_paragraph (str_of ''DDQ Response'') (Some ''Title''),
         set_alignment CENTER,
         add_paragraph (str_of ''Generated on: '' @ now) None,
         set_alignment RIGHT,
         add_paragraph (str_of (replicate 80 (CHR ''_''))) None,
         add_paragraph (str_of ''Question:'') (Some ''Heading''),
         add_paragraph question None,
         add_paragraph [] None,
         add_paragraph (str_of ''Answer:'') (Some ''Heading''),
         add_paragraph answer None]
        @ (case srcs of
             None \<Rightarrow> []
           | Some ss \<Rightarrow>
               if ss \<noteq> [] \<and> length ss > 0
               then [add_paragraph [] None,
                     add_paragraph (str_of ''Sources:'') (Some ''Heading'')]
                    @ map (\<lambda>source. add_paragraph (bullet @ str_of '' '' @ source)
                                       (Some ''Source'')) ss
               else [])
        @ [set_footer (\<lambda>p. p\<lparr>ptext := str_of ''Hudson Advisors DDQ Assistant''\<rparr>),
           set_footer (\<lambda>p. p\<lparr>palignment := Some CENTER\<rparr>)])
       Document"

section \<open>Example requests and environments\<close>

text \<open>
  After the mocks of \<open>test_app.py\<close>: one hit from \<open>ESG_Policy.pdf\<close>, a completion with
  one choice, an upload that returns a URL.
\<close>

definition esg_hit :: hit where
  "esg_hit =
     [''id'' \<mapsto> PStr ''doc1'',
      ''title'' \<mapsto> PStr ''ESG Policy'',
      ''content'' \<mapsto> PStr ''Our ESG policy emphasizes responsible investment.'',
      ''source'' \<mapsto> PStr ''ESG Policy'',
      ''sourceFile'' \<mapsto> PStr ''ESG_Policy.pdf'',
      ''@search.score'' \<mapsto> PNum (19 / 20)]"

definition test_env :: env where
  "test_env =
     \<lparr>SYSTEM_PROMPT = ''You are a helpful AI assistant.'',
      search_service = Some (\<lambda>q n. Inr ([esg_hit], 1)),
      complete = (\<lambda>ms m n. Inr \<lparr>choices = [Choice (Some ''Based on the ESG Policy.'')]\<rparr>),
      blob_service = Some (\<lambda>c n t. Inr ''https://example.blob.core.windows.net/container/document.docx''),
      urandom = (\<lambda>n. replicate n 0),
      py_str = (\<lambda>v. []),
      set_rank = (\<lambda>v. 0)\<rparr>"

definition test_data :: json where
  "test_data = JObj [(''prompt'', JStr ''What is the ESG policy of the fund?''), (''history'', JArr [])]"

text \<open>The index and the model are both unreachable.\<close>

definition outage_env :: env where
  "outage_env = test_env
     \<lparr>search_service := Some (\<lambda>q n. Inl (ServiceError ''index unavailable'')),
      complete := (\<lambda>ms m n. Inl (ServiceError ''model unavailable''))\<rparr>"

text \<open>Only the model is unreachable; only the index is unreachable.\<close>

definition model_down_env :: env where
  "model_down_env = test_env
     \<lparr>complete := (\<lambda>ms m n. Inl (ServiceError ''model unavailable''))\<rparr>"

definition search_down_env :: env where
  "search_down_env = test_env
     \<lparr>search_service := Some (\<lambda>q n. Inl (ServiceError ''index unavailable''))\<rparr>"

text \<open>The model answers with no choice at all.\<close>

definition no_choice_env :: env where
  "no_choice_env = test_env \<lparr>complete := (\<lambda>ms m n. Inr \<lparr>choices = []\<rparr>)\<rparr>"

text \<open>
  No document store is configured; the document store refuses the one blob that the
  test request uploads and takes any other.
\<close>

definition no_store_env :: env where
  "no_store_env = test_env \<lparr>blob_service := None\<rparr>"

definition store_refuses_env :: env where
  "store_refuses_env = test_env
     \<lparr>blob_service :=
        Some (\<lambda>c n t. if n = ''generated_docs/response_What_is_the_ESG_poli_00000000.docx''
                       then Inl (ServiceError ''store unavailable'')
                       else Inr ''https://example.blob.core.windows.net/container/other.docx'')\<rparr>"

text \<open>Two hits from the same file.\<close>

definition twice_env :: env where
  "twice_env = test_env
     \<lparr>search_service := Some (\<lambda>q n. Inr ([esg_hit, esg_hit(''id'' \<mapsto> PStr ''doc2'')], 2))\<rparr>"

text \<open>
  Two hits, from \<open>b.pdf\<close> and from \<open>a.pdf\<close>, in a process whose set of these two names
  iterates \<open>b.pdf\<close> first.
\<close>

definition two_files_env :: env where
  "two_files_env = test_env
     \<lparr>search_service := Some (\<lambda>q n. Inr ([esg_hit(''sourceFile'' \<mapsto> PStr ''b.pdf''),
                                            esg_hit(''sourceFile'' \<mapsto> PStr ''a.pdf'')], 2)),
      set_rank := (\<lambda>v. if v = PStr ''b.pdf'' then 0 else 1)\<rparr>"

text \<open>A hit whose upstream document has neither \<open>content\<close> nor \<open>sourceFile\<close>.\<close>

definition bare_hit :: hit where
  "bare_hit = [''id'' \<mapsto> PStr ''doc3'', ''@search.score'' \<mapsto> PNum 1]"

definition bare_hit_env :: env where
  "bare_hit_env = test_env \<lparr>search_service := Some (\<lambda>q n. Inr ([bare_hit], 1))\<rparr>"

section \<open>Shared lemmas\<close>

lemma set_add_distinct: "distinct s \<Longrightarrow> distinct (set_add x s)"
  by (simp add: set_add_def)

lemma set_set_add: "set (set_add x s) = insert x (set s)"
  by (auto simp add: set_add_def)

lemma set_fold_set_add: "set (fold set_add xs s) = set xs \<union> set s"
  by (induction xs arbitrary: s) (auto simp: set_set_add)

lemma snippet_loop_distinct:
  "snippet_loop E rs ctx s = (r, s') \<Longrightarrow> distinct s \<Longrightarrow> distinct s'"
  by (induction rs arbitrary: ctx s) (auto simp: Let_def set_add_distinct split: if_splits)

lemma retrieve_distinct: "retrieve E q = ((ctx, srcs), evs) \<Longrightarrow> distinct srcs"
  by (auto simp: retrieve_def split: option.splits sum.splits prod.splits if_splits
      dest: snippet_loop_distinct)

lemma count_list_distinct: "distinct xs \<Longrightarrow> x \<in> set xs \<Longrightarrow> count_list xs x = 1"
  by (induction xs) auto

text \<open>When every hit has an id and a score, each becomes a document.\<close>

lemma to_documents_ok:
  "\<forall>h\<in>set hits. h ''id'' \<noteq> None \<and> h ''@search.score'' \<noteq> None \<Longrightarrow>
   \<exists>docs. to_documents hits = Inr docs \<and>
     map (\<lambda>d. dict_get d ''sourceFile'' (PStr ''Unknown Source'')) docs =
     map (\<lambda>h. dict_get h ''sourceFile'' (PStr [])) hits"
  by (induction hits) (auto simp: to_document_def dict_get_def split: option.splits)

lemma snippet_loop_ok:
  "\<forall>d\<in>set docs. hashable (dict_get d ''sourceFile'' (PStr ''Unknown Source'')) \<Longrightarrow>
   \<exists>ctx'. snippet_loop E docs ctx s =
     (Inr ctx', fold set_add (map (\<lambda>d. dict_get d ''sourceFile'' (PStr ''Unknown Source'')) docs) s)"
  by (induction docs arbitrary: ctx s) (auto simp: Let_def)

lemma retrieve_sources:
  assumes "search_service E = Some sc" and "sc q 3 = Inr (hits, n)"
    and ok: "\<forall>h\<in>set hits. h ''id'' \<noteq> None \<and> h ''@search.score'' \<noteq> None
           \<and> hashable (dict_get h ''sourceFile'' (PStr []))"
  shows "set (snd (fst (retrieve E q))) = (\<lambda>h. dict_get h ''sourceFile'' (PStr [])) ` set hits"
proof -
  from ok obtain docs where docs: "to_documents hits = Inr docs"
    and m: "map (\<lambda>d. dict_get d ''sourceFile'' (PStr ''Unknown Source'')) docs =
            map (\<lambda>h. dict_get h ''sourceFile'' (PStr [])) hits"
    using to_documents_ok[of hits] by blast
  have "\<forall>v\<in>set (map (\<lambda>h. dict_get h ''sourceFile'' (PStr [])) hits). hashable v"
    using ok by simp
  then have "\<forall>v\<in>set (map (\<lambda>d. dict_get d ''sourceFile'' (PStr ''Unknown Source'')) docs). hashable v"
    using m by simp
  then have h: "\<forall>d\<in>set docs. hashable (dict_get d ''sourceFile'' (PStr ''Unknown Source''))"
    by simp
  obtain ctx' where loop:
    "snippet_loop E docs ''\<newline>\<newline>Relevant Document Snippets:\<newline>'' [] =
       (Inr ctx', fold set_add (map (\<lambda>d. dict_get d ''sourceFile'' (PStr ''Unknown Source'')) docs) [])"
    using snippet_loop_ok[OF h] by blast
  have len: "(docs = []) = (hits = [])"
    using m by (metis map_is_Nil_conv)
  show ?thesis
    using assms(1,2) docs loop len
    by (cases "hits = []") (simp_all add: retrieve_def search_documents_def set_fold_set_add m)
qed

text \<open>The three ways through the handler once the prompt has been read.\<close>

lemma chat_handler_no_prompt:
  "data_get data ''prompt'' = Inr q \<Longrightarrow> \<not> truthy q \<Longrightarrow>
   chat_handler E (Inr data) = (\<lparr>status = 400, body = ErrorBody ''No prompt provided''\<rparr>, [])"
  by (simp add: chat_handler_def chat_try_def)

lemma chat_handler_completion_failed:
  assumes "data_get data ''prompt'' = Inr q" and "truthy q"
    and "retrieve E q = ((search_context, source_files), evs1)"
    and "complete E [SystemMessage (SYSTEM_PROMPT E @ search_context), UserMessage q]
           AZURE_OAI_MODEL_NAME 1500 = Inl e"
  shows "fst (chat_handler E (Inr data)) =
           \<lparr>status = 500, body = ErrorBody ''Failed to get response from AI model''\<rparr>"
    and "filter is_upload (snd (chat_handler E (Inr data))) = filter is_upload evs1"
  using assms by (simp_all add: chat_handler_def chat_try_def get_openai_completion_def)

lemma chat_handler_ok:
  assumes "data_get data ''prompt'' = Inr q" and "truthy q"
    and "retrieve E q = ((search_context, source_files), evs1)"
    and "complete E [SystemMessage (SYSTEM_PROMPT E @ search_context), UserMessage q]
           AZURE_OAI_MODEL_NAME 1500 = Inr c"
    and "simulate_upload E q
           (case choices c of [] \<Rightarrow> Some ''Sorry, I could not generate a response.''
            | ch # _ \<Rightarrow> message_content ch) source_files = (url, evs3)"
  shows "chat_handler E (Inr data) =
           (\<lparr>status = 200,
             body = ChatBody (case choices c of [] \<Rightarrow> Some ''Sorry, I could not generate a response.''
                              | ch # _ \<Rightarrow> message_content ch) url (set_iter E source_files)\<rparr>,
            evs1 @ [CompleteCall [SystemMessage (SYSTEM_PROMPT E @ search_context), UserMessage q]
                      AZURE_OAI_MODEL_NAME 1500] @ evs3)"
  using assms by (simp add: chat_handler_def chat_try_def get_openai_completion_def Let_def)

lemma chat_ok_sources:
  "data_get data ''prompt'' = Inr q \<Longrightarrow> status (fst (chat_handler E (Inr data))) = 200 \<Longrightarrow>
   get_sources (body (fst (chat_handler E (Inr data)))) = set_iter E (snd (fst (retrieve E q)))"
  by (auto simp: chat_handler_def chat_try_def Let_def split: sum.splits prod.splits if_splits)

lemma retrieve_no_upload: "filter is_upload (snd (retrieve E q)) = []"
  by (auto simp: retrieve_def search_documents_def split: option.splits sum.splits prod.splits)

lemma simulate_upload_no_store:
  "blob_service E = None \<Longrightarrow>
   simulate_upload E q a s = (None, [Print ''Blob service not configured. Skipping document upload.''])"
  by (simp add: simulate_upload_def)

lemma retrieve_search_failed:
  "search_service E = Some sc \<Longrightarrow> search_documents sc q 3 = (Inl e, evs) \<Longrightarrow>
   retrieve E q =
     ((''\<newline>\<newline>Error retrieving documents from search index.'', []),
      evs @ [PrintErr ''Error during Azure AI Search query'' e])"
  by (simp add: retrieve_def)

lemmas example_defs =
  test_env_def test_data_def esg_hit_def outage_env_def model_down_env_def search_down_env_def no_choice_env_def
  no_store_env_def store_refuses_env_def twice_env_def two_files_env_def bare_hit_def
  bare_hit_env_def

lemmas handler_defs =
  chat_handler_def chat_try_def data_get_def retrieve_def search_documents_def to_document_def
  dict_get_def fmt_def fmt_opt_def set_add_def set_iter_def get_openai_completion_def
  AZURE_OAI_MODEL_NAME_def simulate_upload_def slice_replace_def upload_document_def
  hex_def hex_digit_def Let_def

section \<open>The claims\<close>

text \<open>
  C1, as stated: whenever the search call raises, a request with a non-empty prompt ends
  in HTTP 200 with an answer. It does not when the completion call raises as well: with
  the index and the model both unreachable the handler answers HTTP 500.
\<close>

theorem search_failure_counterexample:
  "fst (chat_handler outage_env (Inr test_data)) =
     \<lparr>status = 500, body = ErrorBody ''Failed to get response from AI model''\<rparr>"
  by (simp add: example_defs handler_defs)

text \<open>
  C1, amended: for a request with a non-empty prompt, if the search call raises (the
  query to the index, or the reading of a hit that has no id or no score) and the
  completion call that follows returns, the handler puts the text "Error retrieving
  documents from search index." in place of the snippets block, calls the completion with
  it, and answers HTTP 200 with the completion's text (or the fallback text) as
  \<open>ai_response\<close> and no sources; the search failure is not reported to the caller.
\<close>

theorem search_failure_degrades:
  assumes "data_get data ''prompt'' = Inr q" and "truthy q"
    and "search_service E = Some sc" and "search_documents sc q 3 = (Inl e, evs)"
    and "complete E
           [SystemMessage (SYSTEM_PROMPT E @ ''\<newline>\<newline>Error retrieving documents from search index.''),
            UserMessage q] AZURE_OAI_MODEL_NAME 1500 = Inr c"
  shows "status (fst (chat_handler E (Inr data))) = 200
     \<and> get_ai_response (body (fst (chat_handler E (Inr data)))) =
         Some (case choices c of [] \<Rightarrow> Some ''Sorry, I could not generate a response.''
               | ch # _ \<Rightarrow> message_content ch)
     \<and> get_sources (body (fst (chat_handler E (Inr data)))) = []
     \<and> CompleteCall
           [SystemMessage (SYSTEM_PROMPT E @ ''\<newline>\<newline>Error retrieving documents from search index.''),
            UserMessage q] AZURE_OAI_MODEL_NAME 1500 \<in> set (snd (chat_handler E (Inr data)))"
proof -
  obtain url evs3 where up:
    "simulate_upload E q
       (case choices c of [] \<Rightarrow> Some ''Sorry, I could not generate a response.''
        | ch # _ \<Rightarrow> message_content ch) [] = (url, evs3)"
    by (cases "simulate_upload E q
       (case choices c of [] \<Rightarrow> Some ''Sorry, I could not generate a response.''
        | ch # _ \<Rightarrow> message_content ch) []") blast
  show ?thesis
    using chat_handler_ok[OF assms(1,2) retrieve_search_failed[OF assms(3,4)] assms(5) up]
    by (simp add: set_iter_def)
qed

theorem search_failure_degrades_witness:
  "status (fst (chat_handler search_down_env (Inr test_data))) = 200
   \<and> get_ai_response (body (fst (chat_handler search_down_env (Inr test_data)))) =
       Some (Some ''Based on the ESG Policy.'')
   \<and> get_sources (body (fst (chat_handler search_down_env (Inr test_data)))) = []"
  using search_failure_degrades[of test_data "JStr ''What is the ESG policy of the fund?''"
      search_down_env "\<lambda>q n. Inl (ServiceError ''index unavailable'')"
      "ServiceError ''index unavailable''"
      "[SearchCall (JStr ''What is the ESG policy of the fund?'') 3,
        PrintErr ''Error searching documents'' (ServiceError ''index unavailable'')]"
      "\<lparr>choices = [Choice (Some ''Based on the ESG Policy.'')]\<rparr>"]
  by (simp add: search_down_env_def test_env_def test_data_def data_get_def search_documents_def)

text \<open>
  C2: for a request with a non-empty prompt, if the completion call raises, the handler
  answers HTTP 500 with the fixed body "Failed to get response from AI model", whatever
  the exception holds: its diagnostic is not in the response.
\<close>

theorem completion_failure_500:
  assumes "data_get data ''prompt'' = Inr q" and "truthy q"
    and "retrieve E q = ((search_context, source_files), evs)"
    and "complete E [SystemMessage (SYSTEM_PROMPT E @ search_context), UserMessage q]
           AZURE_OAI_MODEL_NAME 1500 = Inl e"
  shows "fst (chat_handler E (Inr data)) =
           \<lparr>status = 500, body = ErrorBody ''Failed to get response from AI model''\<rparr>"
  using chat_handler_completion_failed(1)[OF assms] .

theorem completion_failure_500_witness:
  "fst (chat_handler model_down_env (Inr test_data)) =
     \<lparr>status = 500, body = ErrorBody ''Failed to get response from AI model''\<rparr>"
  using completion_failure_500[of test_data "JStr ''What is the ESG policy of the fund?''"
      model_down_env
      "fst (fst (retrieve model_down_env (JStr ''What is the ESG policy of the fund?'')))"
      "snd (fst (retrieve model_down_env (JStr ''What is the ESG policy of the fund?'')))"
      "snd (retrieve model_down_env (JStr ''What is the ESG policy of the fund?''))"
      "ServiceError ''model unavailable''"]
  by (simp add: model_down_env_def test_env_def test_data_def data_get_def)

text \<open>
  C5: a request whose JSON object has no \<open>prompt\<close> field, or whose \<open>prompt\<close> is empty
  (any value Python takes for false: the empty string, \<open>null\<close>, zero, \<open>false\<close>, an empty
  list or object), is answered HTTP 400 with \<open>error = "No prompt provided"\<close>, and nothing
  is printed or called: no search, no completion, no upload.
\<close>

theorem missing_prompt_400:
  assumes "map_of kvs ''prompt'' = None \<or> (\<exists>v. map_of kvs ''prompt'' = Some v \<and> \<not> truthy v)"
  shows "chat_handler E (Inr (JObj kvs)) =
           (\<lparr>status = 400, body = ErrorBody ''No prompt provided''\<rparr>, [])"
proof -
  obtain q where "data_get (JObj kvs) ''prompt'' = Inr q" and "\<not> truthy q"
    using assms by (auto simp: data_get_def)
  then show ?thesis by (rule chat_handler_no_prompt)
qed

theorem missing_prompt_400_witness:
  "chat_handler test_env (Inr (JObj [(''history'', JArr [])])) =
     (\<lparr>status = 400, body = ErrorBody ''No prompt provided''\<rparr>, [])
   \<and> chat_handler test_env (Inr (JObj [(''prompt'', JStr [])])) =
     (\<lparr>status = 400, body = ErrorBody ''No prompt provided''\<rparr>, [])"
  using missing_prompt_400[of "[(''history'', JArr [])]" test_env]
    missing_prompt_400[of "[(''prompt'', JStr [])]" test_env]
  by simp

text \<open>
  C7: when the completion call returns a response with no choices, the answer is the
  fixed text "Sorry, I could not generate a response." and the request ends in HTTP 200.
\<close>

theorem zero_choices_fallback:
  assumes "data_get data ''prompt'' = Inr q" and "truthy q"
    and "retrieve E q = ((search_context, source_files), evs)"
    and "complete E [SystemMessage (SYSTEM_PROMPT E @ search_context), UserMessage q]
           AZURE_OAI_MODEL_NAME 1500 = Inr c"
    and "choices c = []"
  shows "status (fst (chat_handler E (Inr data))) = 200
     \<and> get_ai_response (body (fst (chat_handler E (Inr data)))) =
         Some (Some ''Sorry, I could not generate a response.'')"
proof -
  obtain url evs3 where up:
    "simulate_upload E q
       (case choices c of [] \<Rightarrow> Some ''Sorry, I could not generate a response.''
        | ch # _ \<Rightarrow> message_content ch) source_files = (url, evs3)"
    by (cases "simulate_upload E q
       (case choices c of [] \<Rightarrow> Some ''Sorry, I could not generate a response.''
        | ch # _ \<Rightarrow> message_content ch) source_files") blast
  show ?thesis
    using chat_handler_ok[OF assms(1-4) up] assms(5) by simp
qed

theorem zero_choices_fallback_witness:
  "status (fst (chat_handler no_choice_env (Inr test_data))) = 200
   \<and> get_ai_response (body (fst (chat_handler no_choice_env (Inr test_data)))) =
       Some (Some ''Sorry, I could not generate a response.'')"
  using zero_choices_fallback[of test_data "JStr ''What is the ESG policy of the fund?''"
      no_choice_env
      "fst (fst (retrieve no_choice_env (JStr ''What is the ESG policy of the fund?'')))"
      "snd (fst (retrieve no_choice_env (JStr ''What is the ESG policy of the fund?'')))"
      "snd (retrieve no_choice_env (JStr ''What is the ESG policy of the fund?''))"
      "\<lparr>choices = []\<rparr>"]
  by (simp add: no_choice_env_def test_env_def test_data_def data_get_def)

text \<open>
  C10: a POST whose body is not a JSON object (the body does not parse, so that
  \<open>get_json\<close> raises, or it parses to something that has no \<open>get\<close>) is answered with the
  outer handler's HTTP 500 "An internal server error occurred", not with HTTP 400, and
  no service is called.
\<close>

theorem non_object_body_500:
  assumes "\<forall>kvs. request \<noteq> Inr (JObj kvs)"
  shows "fst (chat_handler E request) =
           \<lparr>status = 500, body = ErrorBody ''An internal server error occurred''\<rparr>
     \<and> filter is_call (snd (chat_handler E request)) = []"
proof (cases request)
  case (Inl e)
  then show ?thesis by (simp add: chat_handler_def chat_try_def)
next
  case (Inr data)
  with assms show ?thesis
    by (cases data) (simp_all add: chat_handler_def chat_try_def data_get_def)
qed

theorem non_object_body_500_witness:
  "fst (chat_handler test_env (Inl (BadRequest ''Failed to decode JSON object''))) =
     \<lparr>status = 500, body = ErrorBody ''An internal server error occurred''\<rparr>
   \<and> fst (chat_handler test_env (Inr (JArr [JStr ''What is the ESG policy?'']))) =
     \<lparr>status = 500, body = ErrorBody ''An internal server error occurred''\<rparr>"
  using non_object_body_500[of "Inl (BadRequest ''Failed to decode JSON object'')" test_env]
    non_object_body_500[of "Inr (JArr [JStr ''What is the ESG policy?''])" test_env]
  by simp

text \<open>
  C3: the \<open>sources\<close> list of a response never holds a value twice; and when the search
  returns hits (each with an id and a score), a source file named by one or more of them
  is in the \<open>sources\<close> of the HTTP 200 response exactly once.
\<close>

theorem sources_deduplicated:
  "distinct (get_sources (body (fst (chat_handler E request))))
   \<and> (data_get data ''prompt'' = Inr q \<and> search_service E = Some sc \<and> sc q 3 = Inr (hits, n)
      \<and> (\<forall>h\<in>set hits. h ''id'' \<noteq> None \<and> h ''@search.score'' \<noteq> None
                       \<and> hashable (dict_get h ''sourceFile'' (PStr [])))
      \<and> status (fst (chat_handler E (Inr data))) = 200
      \<and> h1 \<in> set hits \<and> h1 ''sourceFile'' = Some f
      \<longrightarrow> count_list (get_sources (body (fst (chat_handler E (Inr data))))) f = 1)"
proof (intro conjI impI)
  show "distinct (get_sources (body (fst (chat_handler E request))))"
    by (auto simp: chat_handler_def chat_try_def Let_def set_iter_def
        split: sum.splits prod.splits dest: retrieve_distinct)
next
  assume a: "data_get data ''prompt'' = Inr q \<and> search_service E = Some sc \<and> sc q 3 = Inr (hits, n)
      \<and> (\<forall>h\<in>set hits. h ''id'' \<noteq> None \<and> h ''@search.score'' \<noteq> None
                       \<and> hashable (dict_get h ''sourceFile'' (PStr [])))
      \<and> status (fst (chat_handler E (Inr data))) = 200
      \<and> h1 \<in> set hits \<and> h1 ''sourceFile'' = Some f"
  let ?ss = "get_sources (body (fst (chat_handler E (Inr data))))"
  have eq: "?ss = set_iter E (snd (fst (retrieve E q)))"
    using a chat_ok_sources by blast
  have "set (snd (fst (retrieve E q))) = (\<lambda>h. dict_get h ''sourceFile'' (PStr [])) ` set hits"
    using a retrieve_sources[of E sc q hits n] by blast
  moreover have "f \<in> (\<lambda>h. dict_get h ''sourceFile'' (PStr [])) ` set hits"
    using a by (force simp: dict_get_def)
  ultimately have mem: "f \<in> set ?ss"
    using eq by (simp add: set_iter_def)
  have "distinct (snd (fst (retrieve E q)))"
    using retrieve_distinct[of E q "fst (fst (retrieve E q))" "snd (fst (retrieve E q))"
        "snd (retrieve E q)"] by simp
  then have "distinct ?ss"
    using eq by (simp add: set_iter_def)
  with mem show "count_list ?ss f = 1"
    by (rule count_list_distinct[rotated])
qed

theorem sources_deduplicated_witness:
  "get_sources (body (fst (chat_handler twice_env (Inr test_data)))) = [PStr ''ESG_Policy.pdf'']
   \<and> count_list (get_sources (body (fst (chat_handler twice_env (Inr test_data)))))
        (PStr ''ESG_Policy.pdf'') = 1"
proof -
  have ev: "get_sources (body (fst (chat_handler twice_env (Inr test_data)))) = [PStr ''ESG_Policy.pdf'']"
    and st: "status (fst (chat_handler twice_env (Inr test_data))) = 200"
    by (simp_all add: example_defs handler_defs)
  show ?thesis
    using sources_deduplicated[of twice_env "Inr test_data" test_data
        "JStr ''What is the ESG policy of the fund?''" "\<lambda>q n. Inr ([esg_hit, esg_hit(''id'' \<mapsto> PStr ''doc2'')], 2)"
        "[esg_hit, esg_hit(''id'' \<mapsto> PStr ''doc2'')]" 2 esg_hit "PStr ''ESG_Policy.pdf''"] st ev
    by (simp add: twice_env_def test_env_def test_data_def data_get_def esg_hit_def dict_get_def)
qed

text \<open>
  C4, as stated: the \<open>sources\<close> of the HTTP 200 response are the collected names in
  sorted order. They are not: the handler returns \<open>list(source_files)\<close>, the set in its
  iteration order. With hits from \<open>b.pdf\<close> and \<open>a.pdf\<close>, in a process that iterates
  \<open>b.pdf\<close> first, the response lists \<open>b.pdf\<close> before \<open>a.pdf\<close>.
\<close>

theorem sources_not_sorted_counterexample:
  "status (fst (chat_handler two_files_env (Inr test_data))) = 200
   \<and> get_sources (body (fst (chat_handler two_files_env (Inr test_data)))) =
       [PStr ''b.pdf'', PStr ''a.pdf'']
   \<and> \<not> sorted (map (fmt two_files_env)
                 (get_sources (body (fst (chat_handler two_files_env (Inr test_data))))))"
proof -
  have ev: "get_sources (body (fst (chat_handler two_files_env (Inr test_data)))) =
       [PStr ''b.pdf'', PStr ''a.pdf'']"
    and st: "status (fst (chat_handler two_files_env (Inr test_data))) = 200"
    by (simp_all add: example_defs handler_defs)
  have "\<not> ''b.pdf'' \<le> ''a.pdf''"
    by simp
  then show ?thesis
    using ev st by (simp add: fmt_def)
qed

text \<open>
  C4, amended: when the search returns hits (each with an id and a score), the
  \<open>sources\<close> of the HTTP 200 response are exactly the source file names of the hits, each
  once, in the iteration order of the set of names, which need not be sorted.
\<close>

theorem sources_in_set_order:
  assumes "data_get data ''prompt'' = Inr q"
    and "search_service E = Some sc" and "sc q 3 = Inr (hits, n)"
    and "\<forall>h\<in>set hits. h ''id'' \<noteq> None \<and> h ''@search.score'' \<noteq> None
           \<and> hashable (dict_get h ''sourceFile'' (PStr []))"
    and "status (fst (chat_handler E (Inr data))) = 200"
  shows "set (get_sources (body (fst (chat_handler E (Inr data)))))
           = (\<lambda>h. dict_get h ''sourceFile'' (PStr [])) ` set hits
       \<and> distinct (get_sources (body (fst (chat_handler E (Inr data)))))
       \<and> sorted (map (set_rank E) (get_sources (body (fst (chat_handler E (Inr data))))))"
  using chat_ok_sources[OF assms(1,5)] retrieve_sources[OF assms(2,3,4)]
    retrieve_distinct[of E q "fst (fst (retrieve E q))" "snd (fst (retrieve E q))" "snd (retrieve E q)"]
  by (simp add: set_iter_def)

theorem sources_in_set_order_witness:
  "set (get_sources (body (fst (chat_handler two_files_env (Inr test_data)))))
     = {PStr ''a.pdf'', PStr ''b.pdf''}
   \<and> distinct (get_sources (body (fst (chat_handler two_files_env (Inr test_data)))))"
proof -
  have st: "status (fst (chat_handler two_files_env (Inr test_data))) = 200"
    by (simp add: example_defs handler_defs)
  show ?thesis
    using sources_in_set_order[of test_data "JStr ''What is the ESG policy of the fund?''"
        two_files_env
        "\<lambda>q n. Inr ([esg_hit(''sourceFile'' \<mapsto> PStr ''b.pdf''),
                      esg_hit(''sourceFile'' \<mapsto> PStr ''a.pdf'')], 2)"
        "[esg_hit(''sourceFile'' \<mapsto> PStr ''b.pdf''), esg_hit(''sourceFile'' \<mapsto> PStr ''a.pdf'')]" 2] st
    by (auto simp add: two_files_env_def test_env_def test_data_def data_get_def esg_hit_def dict_get_def)
qed

text \<open>
  C8, at a hit whose upstream document has neither \<open>content\<close> nor \<open>sourceFile\<close>: the
  search client exposes the empty string for both, so the handler's own default
  "Unknown Source" is never taken; the context block reads "Source: " with nothing after
  it, and the collected source file name is the empty string.
\<close>

theorem missing_source_file_label:
  "(case search_service bare_hit_env of
      None \<Rightarrow> False
    | Some sc \<Rightarrow> map (\<lambda>d. (d ''content'', d ''sourceFile''))
                  (case fst (search_documents sc (JStr ''What is the ESG policy of the fund?'') 3) of
                     Inl e \<Rightarrow> [] | Inr sr \<Rightarrow> results sr)
                = [(Some (PStr []), Some (PStr []))])
   \<and> fst (retrieve bare_hit_env (JStr ''What is the ESG policy of the fund?'')) =
       (''\<newline>\<newline>Relevant Document Snippets:\<newline>\<newline>---\<newline>Source: \<newline>Snippet: \<newline>---'', [PStr []])
   \<and> get_sources (body (fst (chat_handler bare_hit_env (Inr test_data)))) = [PStr []]
   \<and> get_sources (body (fst (chat_handler bare_hit_env (Inr test_data)))) \<noteq> [PStr ''Unknown Source'']"
  by (simp add: example_defs handler_defs)

lemma hex_zeros: "hex (replicate 4 0) = ''00000000''"
proof -
  have "replicate 4 (0::8 word) = [0, 0, 0, 0]"
    by (simp add: numeral_eq_Suc)
  then show ?thesis
    by (simp add: hex_def hex_digit_def)
qed

lemma simulate_upload_fails:
  assumes "blob_service E = Some container_client"
    and "slice_replace q = Inl e1
         \<or> (s \<noteq> [] \<and> join '', '' (set_iter E s) = Inl e2)
         \<or> (slice_replace q = Inr fragment
            \<and> (if s \<noteq> [] then join '', '' (set_iter E s) else Inr ''N/A'') = Inr joined
            \<and> container_client
                 (''Question: '' @ (case q of JStr t \<Rightarrow> t | _ \<Rightarrow> [])
                  @ ''\<newline>\<newline>Answer: '' @ fmt_opt a @ ''\<newline>\<newline>Sources: '' @ joined)
                 (''generated_docs/response_'' @ fragment @ ''_'' @ hex (urandom E 4) @ ''.docx'')
                 ''text/plain'' = Inl e3)"
  shows "fst (simulate_upload E q a s) = None"
proof (cases "slice_replace q")
  case (Inl e)
  then show ?thesis using assms(1) by (simp add: simulate_upload_def)
next
  case frag: (Inr fragment')
  show ?thesis
  proof (cases "if s \<noteq> [] then join '', '' (set_iter E s) else Inr ''N/A''")
    case (Inl e)
    then show ?thesis using assms(1) frag by (simp add: simulate_upload_def)
  next
    case j: (Inr joined')
    then have down: "fragment' = fragment \<and> joined' = joined
      \<and> container_client
           (''Question: '' @ (case q of JStr t \<Rightarrow> t | _ \<Rightarrow> [])
            @ ''\<newline>\<newline>Answer: '' @ fmt_opt a @ ''\<newline>\<newline>Sources: '' @ joined)
           (''generated_docs/response_'' @ fragment @ ''_'' @ hex (urandom E 4) @ ''.docx'')
           ''text/plain'' = Inl e3"
      using assms(2) frag by (auto split: if_splits)
    show ?thesis
      using assms(1) frag j down
      by (simp add: simulate_upload_def upload_document_def Let_def)
  qed
qed

lemma chat_handler_no_store:
  assumes "blob_service E = None"
  shows "filter is_upload (snd (chat_handler E request)) = []
     \<and> (status (fst (chat_handler E request)) = 200
          \<longrightarrow> get_document_url (body (fst (chat_handler E request))) = Some None)
     \<and> (status (fst (chat_handler E request)) \<noteq> 200
          \<longrightarrow> get_document_url (body (fst (chat_handler E request))) = None)"
proof (cases request)
  case (Inl e)
  then show ?thesis by (simp add: chat_handler_def chat_try_def)
next
  case (Inr data)
  show ?thesis
  proof (cases "data_get data ''prompt''")
    case (Inl e)
    then show ?thesis using Inr by (simp add: chat_handler_def chat_try_def)
  next
    case q: (Inr q)
    show ?thesis
    proof (cases "truthy q")
      case False
      then show ?thesis using Inr chat_handler_no_prompt[OF q] by simp
    next
      case True
      obtain ctx srcs evs1 where r: "retrieve E q = ((ctx, srcs), evs1)"
        by (metis surj_pair)
      have e1: "filter is_upload evs1 = []"
        using retrieve_no_upload[of E q] r by simp
      show ?thesis
      proof (cases "complete E [SystemMessage (SYSTEM_PROMPT E @ ctx), UserMessage q]
                      AZURE_OAI_MODEL_NAME 1500")
        case (Inl e)
        then show ?thesis
          using Inr e1 chat_handler_completion_failed[OF q True r Inl] by simp
      next
        case c: (Inr c)
        show ?thesis
          using Inr e1
            chat_handler_ok[OF q True r c simulate_upload_no_store[OF assms]]
          by simp
      qed
    qed
  qed
qed

text \<open>
  C6: with no document store configured, no upload is attempted and the
  \<open>document_url\<close> of the HTTP 200 response is null (an error response has no such field,
  so no response ever carries a URL). With a store configured, if the document step of
  this request fails (building the blob name raises, building the content raises, or the
  one upload call that the request makes raises, so that \<open>upload_document\<close> returns
  \<open>None\<close>), the request still ends in HTTP 200 with the answer and a null
  \<open>document_url\<close>.
\<close>

theorem document_failure_null_url:
  "(blob_service E = None \<longrightarrow>
      filter is_upload (snd (chat_handler E request)) = []
      \<and> (status (fst (chat_handler E request)) = 200
           \<longrightarrow> get_document_url (body (fst (chat_handler E request))) = Some None)
      \<and> (status (fst (chat_handler E request)) \<noteq> 200
           \<longrightarrow> get_document_url (body (fst (chat_handler E request))) = None))
   \<and> (data_get data ''prompt'' = Inr q \<and> truthy q
      \<and> retrieve E q = ((search_context, source_files), evs)
      \<and> complete E [SystemMessage (SYSTEM_PROMPT E @ search_context), UserMessage q]
           AZURE_OAI_MODEL_NAME 1500 = Inr c
      \<and> answer = (case choices c of
                    [] \<Rightarrow> Some ''Sorry, I could not generate a response.''
                  | ch # _ \<Rightarrow> message_content ch)
      \<and> blob_service E = Some container_client
      \<and> (slice_replace q = Inl e1
         \<or> (source_files \<noteq> [] \<and> join '', '' (set_iter E source_files) = Inl e2)
         \<or> (slice_replace q = Inr fragment
            \<and> (if source_files \<noteq> [] then join '', '' (set_iter E source_files)
                else Inr ''N/A'') = Inr joined
            \<and> container_client
                 (''Question: '' @ (case q of JStr t \<Rightarrow> t | _ \<Rightarrow> [])
                  @ ''\<newline>\<newline>Answer: '' @ fmt_opt answer @ ''\<newline>\<newline>Sources: '' @ joined)
                 (''generated_docs/response_'' @ fragment @ ''_'' @ hex (urandom E 4) @ ''.docx'')
                 ''text/plain'' = Inl e3))
      \<longrightarrow> fst (chat_handler E (Inr data)) =
            \<lparr>status = 200, body = ChatBody answer None (set_iter E source_files)\<rparr>)"
proof (rule conjI)
  show "blob_service E = None \<longrightarrow>
      filter is_upload (snd (chat_handler E request)) = []
      \<and> (status (fst (chat_handler E request)) = 200
           \<longrightarrow> get_document_url (body (fst (chat_handler E request))) = Some None)
      \<and> (status (fst (chat_handler E request)) \<noteq> 200
           \<longrightarrow> get_document_url (body (fst (chat_handler E request))) = None)"
    using chat_handler_no_store[of E request] by blast
next
  let ?hyp = "data_get data ''prompt'' = Inr q \<and> truthy q
      \<and> retrieve E q = ((search_context, source_files), evs)
      \<and> complete E [SystemMessage (SYSTEM_PROMPT E @ search_context), UserMessage q]
           AZURE_OAI_MODEL_NAME 1500 = Inr c
      \<and> answer = (case choices c of
                    [] \<Rightarrow> Some ''Sorry, I could not generate a response.''
                  | ch # _ \<Rightarrow> message_content ch)
      \<and> blob_service E = Some container_client
      \<and> (slice_replace q = Inl e1
         \<or> (source_files \<noteq> [] \<and> join '', '' (set_iter E source_files) = Inl e2)
         \<or> (slice_replace q = Inr fragment
            \<and> (if source_files \<noteq> [] then join '', '' (set_iter E source_files)
                else Inr ''N/A'') = Inr joined
            \<and> container_client
                 (''Question: '' @ (case q of JStr t \<Rightarrow> t | _ \<Rightarrow> [])
                  @ ''\<newline>\<newline>Answer: '' @ fmt_opt answer @ ''\<newline>\<newline>Sources: '' @ joined)
                 (''generated_docs/response_'' @ fragment @ ''_'' @ hex (urandom E 4) @ ''.docx'')
                 ''text/plain'' = Inl e3))"
  show "?hyp \<longrightarrow> fst (chat_handler E (Inr data)) =
          \<lparr>status = 200, body = ChatBody answer None (set_iter E source_files)\<rparr>"
  proof (rule impI)
    assume a: ?hyp
    then have "fst (simulate_upload E q answer source_files) = None"
      by (elim conjE) (rule simulate_upload_fails, assumption, assumption)
    then obtain evs3 where up: "simulate_upload E q answer source_files = (None, evs3)"
      by (cases "simulate_upload E q answer source_files") simp
    show "fst (chat_handler E (Inr data)) =
            \<lparr>status = 200, body = ChatBody answer None (set_iter E source_files)\<rparr>"
      using a chat_handler_ok[of data q E search_context source_files evs c None evs3] up
      by simp
  qed
qed

text \<open>
  The witness: no store at all; and a store that refuses the one blob this request
  uploads and would take any other.
\<close>

theorem document_failure_null_url_witness:
  "filter is_upload (snd (chat_handler no_store_env (Inr test_data))) = []
   \<and> get_document_url (body (fst (chat_handler no_store_env (Inr test_data)))) = Some None
   \<and> fst (chat_handler store_refuses_env (Inr test_data)) =
       \<lparr>status = 200,
        body = ChatBody (Some ''Based on the ESG Policy.'') None [PStr ''ESG_Policy.pdf'']\<rparr>"
proof -
  have st: "status (fst (chat_handler no_store_env (Inr test_data))) = 200"
    by (simp add: example_defs handler_defs)
  have r: "retrieve store_refuses_env (JStr ''What is the ESG policy of the fund?'') =
      ((''\<newline>\<newline>Relevant Document Snippets:\<newline>\<newline>---\<newline>Source: ESG_Policy.pdf\<newline>Snippet: Our ESG policy emphasizes responsible investment.\<newline>---'',
        [PStr ''ESG_Policy.pdf'']),
       [SearchCall (JStr ''What is the ESG policy of the fund?'') 3])"
    by (simp add: example_defs handler_defs)
  have a: "filter is_upload (snd (chat_handler no_store_env (Inr test_data))) = []
   \<and> get_document_url (body (fst (chat_handler no_store_env (Inr test_data)))) = Some None"
    using document_failure_null_url[of no_store_env "Inr test_data"] st
    by (simp add: no_store_env_def)
  have b: "fst (chat_handler store_refuses_env (Inr test_data)) =
       \<lparr>status = 200,
        body = ChatBody (Some ''Based on the ESG Policy.'') None [PStr ''ESG_Policy.pdf'']\<rparr>"
    using document_failure_null_url[of store_refuses_env _ test_data
        "JStr ''What is the ESG policy of the fund?''" _ "[PStr ''ESG_Policy.pdf'']" _
        "\<lparr>choices = [Choice (Some ''Based on the ESG Policy.'')]\<rparr>"
        "Some ''Based on the ESG Policy.''"
        "\<lambda>c n t. if n = ''generated_docs/response_What_is_the_ESG_poli_00000000.docx''
                  then Inl (ServiceError ''store unavailable'')
                  else Inr ''https://example.blob.core.windows.net/container/other.docx''"
        _ _ "''What_is_the_ESG_poli''" "''ESG_Policy.pdf''" "ServiceError ''store unavailable''"] r
    by (simp add: store_refuses_env_def test_env_def test_data_def data_get_def set_iter_def
        slice_replace_def hex_zeros)
  show ?thesis using a b by simp
qed

text \<open>
  C9, for every (question, answer, sources): the function does not get as far as the
  title. \<open>Document()\<close> opens the default template, which already has a style \<open>Title\<close>,
  so \<open>styles.add_style('Title', ...)\<close> raises \<open>ValueError\<close> and no document is rendered.
\<close>

theorem create_docx_document_raises:
  "create_docx_document now question answer srcs = Inl (ValueError ''Title'')"
  by (simp add: create_docx_document_def Document_def default_style_names_def with_style_def
      add_style_def)

end
